theory Spec2Isabelle
  imports Complex_Main "HOL-Library.Multiset"
begin

section \<open>Python values\<close>

text \<open>
  A Python \<open>float\<close>: a finite value (every finite double is a rational), the two
  infinities and NaN. The program only compares floats with integers, which Python does
  exactly, so no rounding is involved anywhere.
\<close>

datatype pyfloat = Fin rat | PosInf | NegInf | NaN

text \<open>\<open>x >= n\<close> and \<open>x > n\<close> for a float \<open>x\<close> and an int \<open>n\<close>; every comparison with NaN is false.\<close>

fun float_ge_int :: "pyfloat \<Rightarrow> int \<Rightarrow> bool" where
  "float_ge_int (Fin r) n = (of_int n \<le> r)"
| "float_ge_int PosInf n = True"
| "float_ge_int NegInf n = False"
| "float_ge_int NaN n = False"

fun float_gt_int :: "pyfloat \<Rightarrow> int \<Rightarrow> bool" where
  "float_gt_int (Fin r) n = (of_int n < r)"
| "float_gt_int PosInf n = True"
| "float_gt_int NegInf n = False"
| "float_gt_int NaN n = False"

text \<open>
  The values \<open>json.loads\<close> and \<open>response.json()\<close> produce. \<open>JNull\<close> is Python's
  \<open>None\<close>; a \<open>JDict\<close> lists the items of a Python dict, whose keys are distinct.
\<close>

datatype json =
    JNull
  | JBool bool
  | JInt int
  | JFloat pyfloat
  | JStr string
  | JList "json list"
  | JDict "(string \<times> json) list"

text \<open>Truthiness, as \<open>if v\<close>, \<open>not v\<close> and the operands of \<open>and\<close> test it.\<close>

fun py_truthy :: "json \<Rightarrow> bool" where
  "py_truthy JNull = False"
| "py_truthy (JBool b) = b"
| "py_truthy (JInt i) = (i \<noteq> 0)"
| "py_truthy (JFloat f) = (f \<noteq> Fin 0)"
| "py_truthy (JStr s) = (s \<noteq> [])"
| "py_truthy (JList xs) = (xs \<noteq> [])"
| "py_truthy (JDict kvs) = (kvs \<noteq> [])"

text \<open>
  Python's \<open>==\<close> on such values. Booleans and numbers compare by numeric value
  (\<open>True == 1\<close>), NaN differs from itself, and containers compare their elements with
  "identical or equal"; the only value identical and not equal to itself is the one NaN
  object the JSON decoder hands out.
\<close>

fun py_num :: "json \<Rightarrow> pyfloat option" where
  "py_num (JBool b) = Some (Fin (if b then 1 else 0))"
| "py_num (JInt i) = Some (Fin (of_int i))"
| "py_num (JFloat f) = Some f"
| "py_num _ = None"

fun py_eq :: "json \<Rightarrow> json \<Rightarrow> bool" where
  "py_eq JNull b = (b = JNull)"
| "py_eq (JStr s) b = (b = JStr s)"
| "py_eq (JList xs) (JList ys) =
     list_all2 (\<lambda>x y. (x = JFloat NaN \<and> y = JFloat NaN) \<or> py_eq x y) xs ys"
| "py_eq (JList xs) _ = False"
| "py_eq (JDict xs) (JDict ys) =
     (length xs = length ys \<and>
      list_all (\<lambda>(k, v). list_ex (\<lambda>(k', w). k' = k \<and>
        ((v = JFloat NaN \<and> w = JFloat NaN) \<or> py_eq v w)) ys) xs)"
| "py_eq (JDict xs) _ = False"
| "py_eq a b =
     (case (py_num a, py_num b) of
        (Some x, Some y) \<Rightarrow> x \<noteq> NaN \<and> x = y
      | _ \<Rightarrow> False)"

text \<open>\<open>d.get(k)\<close> on a dict: \<open>None\<close> when the key is missing.\<close>

definition dict_get :: "(string \<times> json) list \<Rightarrow> string \<Rightarrow> json" where
  "dict_get kvs k = (case map_of kvs k of None \<Rightarrow> JNull | Some v \<Rightarrow> v)"

text \<open>\<open>xs[:n]\<close>: a negative \<open>n\<close> counts from the end.\<close>

definition py_slice_to :: "int \<Rightarrow> 'a list \<Rightarrow> 'a list" where
  "py_slice_to n xs =
     (if 0 \<le> n then take (nat n) xs else take (length xs - nat (- n)) xs)"

text \<open>\<open>s.lower()\<close> on the ASCII letters; no other character lowers to an ASCII letter
  that occurs in \<open>1\<close>, \<open>true\<close> or \<open>yes\<close>.\<close>

definition ascii_lower :: "char \<Rightarrow> char" where
  "ascii_lower c =
     (case map_of (zip ''ABCDEFGHIJKLMNOPQRSTUVWXYZ'' ''abcdefghijklmnopqrstuvwxyz'') c of
        None \<Rightarrow> c
      | Some l \<Rightarrow> l)"

definition lower :: "string \<Rightarrow> string" where
  "lower s = map ascii_lower s"

text \<open>\<open>s.split(" ", 1)\<close>: at most one split, at the first space.\<close>

definition split_space_1 :: "string \<Rightarrow> string list" where
  "split_space_1 s =
     (case dropWhile (\<lambda>c. c \<noteq> CHR '' '') s of
        [] \<Rightarrow> [s]
      | _ # rest \<Rightarrow> [takeWhile (\<lambda>c. c \<noteq> CHR '' '') s, rest])"

section \<open>Configuration, records and errors\<close>

text \<open>
  What \<open>int(os.getenv("HIGH_RISK_AMOUNT", "10000"))\<close> sees: the variable unset, set to
  text that \<open>int\<close> reads as a number, or set to text it rejects.
\<close>

datatype env_int = EnvUnset | EnvInt int | EnvNotInt

text \<open>The environment variables the handlers read, and whether \<open>import boto3\<close> succeeded.\<close>

record env =
  DDB_TABLE :: "string option"
  boto3 :: bool
  ALLOW_CLEAR :: "string option"
  HIGH_RISK_AMOUNT :: env_int
  GOOGLE_OAUTH_CLIENT_ID :: "string option"

text \<open>The request body of \<open>POST /transactions\<close> (class \<open>Transaction\<close>).\<close>

record transaction =
  amount :: pyfloat
  currency :: string
  merchant :: string
  high_risk :: bool
  risk_level :: "string option"

text \<open>
  A stored record: the dict built by \<open>create_transaction\<close>. The keys that
  \<open>list_transactions\<close> reads with \<open>dict.get\<close> are options, \<open>None\<close> for a missing key.
\<close>

record item = transaction +
  item_id :: string
  timestamp :: "int option"
  user :: "string option"

text \<open>An \<open>HTTPException\<close> with its status code and detail, or an exception no handler catches.\<close>

datatype error = HTTPException nat string | Unhandled

section \<open>External collaborators\<close>

text \<open>
  The library functions: \<open>google_id_token.verify_oauth2_token\<close> (token and optional
  audience to the payload, \<open>None\<close> when it raises), the JSON encoding of one value by
  \<open>json.dumps\<close>, and \<open>json.loads\<close> (\<open>None\<close> when it raises).
\<close>

record ext =
  verify_oauth2_token :: "string \<Rightarrow> string option \<Rightarrow> (string \<times> json) list option"
  json_dumps :: "json \<Rightarrow> string"
  json_loads :: "string \<Rightarrow> json option"

text \<open>The reply of the risk service: the call raised, the body was not JSON, or a JSON value.\<close>

datatype risk_reply = RiskError | RiskNotJson | RiskJson json

text \<open>
  The outcome of the statements inside a DynamoDB \<open>try\<close> block: they all returned, one
  raised a \<open>BotoCoreError\<close> or a \<open>ClientError\<close>, or one raised an exception of another
  class, which the \<open>except\<close> clause does not catch (boto3 raises \<open>TypeError\<close> when an
  attribute of the item is a Python float, for one). A successful scan carries the items
  of the response, \<open>resp.get("Items", [])\<close>, with timestamps that \<open>int\<close> accepts.
\<close>

datatype put_outcome = PutOk | PutBotoError | PutOtherError

datatype scan_outcome = ScanOk "item list" | ScanBotoError | ScanOtherError

text \<open>What one \<open>POST /transactions\<close> call obtains from outside the process.\<close>

record create_io =
  risk_response :: risk_reply
  uuid4 :: string
  time_now :: int
  put_item :: put_outcome

section \<open>The store\<close>

definition str_truthy :: "string option \<Rightarrow> bool" where
  "str_truthy s = (case s of None \<Rightarrow> False | Some v \<Rightarrow> v \<noteq> [])"

text \<open>The fallback of \<open>save_transaction_record\<close>: \<open>insert(0, record)\<close>, then \<open>pop()\<close> past 200.\<close>

definition memory_insert :: "item \<Rightarrow> item list \<Rightarrow> item list" where
  "memory_insert record store =
     (let store1 = record # store
      in if length store1 > 200 then butlast store1 else store1)"

definition save_transaction_record ::
  "env \<Rightarrow> put_outcome \<Rightarrow> item \<Rightarrow> item list \<Rightarrow> (error + bool) \<times> item list" where
  "save_transaction_record e put record store =
     (if boto3 e \<and> str_truthy (DDB_TABLE e) then
        (case put of
           PutOk \<Rightarrow> (Inr True, store)
         | PutBotoError \<Rightarrow> (Inr False, memory_insert record store)
         | PutOtherError \<Rightarrow> (Inl Unhandled, store))
      else (Inr False, memory_insert record store))"

text \<open>A run of saves, each with its own environment and DynamoDB outcome.\<close>

fun run_saves :: "(env \<times> put_outcome \<times> item) list \<Rightarrow> item list \<Rightarrow> item list" where
  "run_saves [] store = store"
| "run_saves ((e, put, record) # rest) store =
     run_saves rest (snd (save_transaction_record e put record store))"

fun memory_inserts :: "item list \<Rightarrow> item list \<Rightarrow> item list" where
  "memory_inserts [] store = store"
| "memory_inserts (record # rest) store = memory_inserts rest (memory_insert record store)"

section \<open>create_transaction\<close>

text \<open>Lines 65-82: the identity string, or the 401.\<close>

definition bearer_value :: "string option \<Rightarrow> string option" where
  "bearer_value authorization =
     (case authorization of
        None \<Rightarrow> None
      | Some a \<Rightarrow> if a \<noteq> [] \<and> take 7 a = ''Bearer '' then Some a else None)"

definition missing_authentication :: error where
  "missing_authentication =
     HTTPException 401
       ''Missing authentication. Provide Authorization Bearer token or X-User header.''"

definition invalid_token :: error where
  "invalid_token = HTTPException 401 ''Invalid Google ID token''"

text \<open>Line 74: \<open>json.dumps({"name": payload.get("name"), "email": payload.get("email")})\<close>.\<close>

definition encode_identity :: "ext \<Rightarrow> (string \<times> json) list \<Rightarrow> string" where
  "encode_identity x payload =
     ''{'' @ json_dumps x (JStr ''name'') @ '': '' @ json_dumps x (dict_get payload ''name'')
       @ '', '' @ json_dumps x (JStr ''email'') @ '': '' @ json_dumps x (dict_get payload ''email'')
       @ ''}''"

definition resolve_user :: "env \<Rightarrow> ext \<Rightarrow> string option \<Rightarrow> string option \<Rightarrow> error + string" where
  "resolve_user e x x_user authorization =
     (case bearer_value authorization of
        Some a \<Rightarrow>
          (case split_space_1 a of
             _ # token # _ \<Rightarrow>
               (let audience = GOOGLE_OAUTH_CLIENT_ID e;
                    verified = (if str_truthy audience
                                then verify_oauth2_token x token audience
                                else verify_oauth2_token x token None)
                in case verified of
                     None \<Rightarrow> Inl invalid_token
                   | Some payload \<Rightarrow>
                       (let user_header = encode_identity x payload
                        in if user_header = [] then Inl missing_authentication
                           else Inr user_header))
           | _ \<Rightarrow> Inl Unhandled)
      | None \<Rightarrow>
          (case x_user of
             Some u \<Rightarrow> if u \<noteq> [] then Inr u else Inl missing_authentication
           | None \<Rightarrow> Inl missing_authentication))"

text \<open>Lines 83-101: \<open>risk_data\<close> after the call to the risk service.\<close>

fun risk_data_of :: "risk_reply \<Rightarrow> json" where
  "risk_data_of RiskError = JDict []"
| "risk_data_of RiskNotJson = JDict []"
| "risk_data_of (RiskJson j) = j"

text \<open>Lines 104-107.\<close>

fun high_risk_amount :: "env_int \<Rightarrow> int" where
  "high_risk_amount EnvUnset = 10000"
| "high_risk_amount (EnvInt n) = n"
| "high_risk_amount EnvNotInt = 10000"

text \<open>Line 110: \<open>risk_data.get("risk_level") if isinstance(risk_data, dict) else None\<close>.\<close>

fun get_risk_level :: "json \<Rightarrow> json" where
  "get_risk_level (JDict kvs) = dict_get kvs ''risk_level''"
| "get_risk_level _ = JNull"

text \<open>Lines 109-121.\<close>

definition is_high_of :: "json \<Rightarrow> pyfloat \<Rightarrow> int \<Rightarrow> bool" where
  "is_high_of rl amt threshold =
     (if py_eq rl (JStr ''HIGH'') then True
      else if py_eq rl (JStr ''MEDIUM'') then False
      else if py_eq rl (JStr ''LOW'') then False
      else if float_ge_int amt threshold then True else False)"

text \<open>Lines 126-135; the value assigned in the first branch is \<open>risk_level\<close> itself, a string there.\<close>

definition risk_level_of :: "json \<Rightarrow> pyfloat \<Rightarrow> string option" where
  "risk_level_of rl amt =
     (if list_ex (py_eq rl) [JStr ''HIGH'', JStr ''MEDIUM'', JStr ''LOW''] then
        (case rl of JStr s \<Rightarrow> Some s | _ \<Rightarrow> None)
      else if float_gt_int amt 10000 then Some ''HIGH''
      else if float_gt_int amt 1000 then Some ''MEDIUM''
      else Some ''LOW'')"

definition create_transaction ::
  "env \<Rightarrow> ext \<Rightarrow> create_io \<Rightarrow> transaction \<Rightarrow> string option \<Rightarrow> string option \<Rightarrow> item list
     \<Rightarrow> (error + item) \<times> item list" where
  "create_transaction e x io t x_user authorization store =
     (case resolve_user e x x_user authorization of
        Inl err \<Rightarrow> (Inl err, store)
      | Inr user_header \<Rightarrow>
          (let risk_data = risk_data_of (risk_response io);
               threshold = high_risk_amount (HIGH_RISK_AMOUNT e);
               rl = get_risk_level risk_data;
               is_high = is_high_of rl (amount t) threshold;
               record = \<lparr> amount = amount t, currency = currency t, merchant = merchant t,
                          high_risk = is_high, risk_level = risk_level_of rl (amount t),
                          item_id = uuid4 io, timestamp = Some (time_now io),
                          user = Some user_header \<rparr>
           in case save_transaction_record e (put_item io) record store of
                (Inl err, store1) \<Rightarrow> (Inl err, store1)
              | (Inr saved_to_ddb, store1) \<Rightarrow> (Inr record, store1)))"

section \<open>list_transactions\<close>

text \<open>The sort key \<open>int(x.get("timestamp", 0))\<close>.\<close>

definition timestamp_key :: "item \<Rightarrow> int" where
  "timestamp_key it = (case timestamp it of None \<Rightarrow> 0 | Some ts \<Rightarrow> ts)"

text \<open>\<open>sorted(items, key=..., reverse=True)\<close>: descending and stable.\<close>

definition sorted_desc :: "item list \<Rightarrow> item list" where
  "sorted_desc items = sort_key (\<lambda>it. - timestamp_key it) items"

text \<open>Lines 200-214: the items before the filter.\<close>

definition scan_items :: "env \<Rightarrow> scan_outcome \<Rightarrow> int \<Rightarrow> item list \<Rightarrow> error + item list" where
  "scan_items e scan limit store =
     (if boto3 e \<and> str_truthy (DDB_TABLE e) then
        (case scan of
           ScanOk items \<Rightarrow> Inr (py_slice_to limit (sorted_desc items))
         | ScanBotoError \<Rightarrow> Inr (py_slice_to limit store)
         | ScanOtherError \<Rightarrow> Inl Unhandled)
      else Inr (py_slice_to limit store))"

text \<open>Lines 218-224: \<open>None\<close> (here \<open>JNull\<close>) when decoding or \<open>.get\<close> raises.\<close>

definition extract_email :: "ext \<Rightarrow> string \<Rightarrow> json" where
  "extract_email x s =
     (case json_loads x s of
        None \<Rightarrow> JNull
      | Some (JDict kvs) \<Rightarrow> dict_get kvs ''email''
      | Some _ \<Rightarrow> JNull)"

text \<open>Lines 227-239: the loop over the items.\<close>

fun filter_items :: "ext \<Rightarrow> string \<Rightarrow> json \<Rightarrow> item list \<Rightarrow> item list" where
  "filter_items x x_user hdr_email [] = []"
| "filter_items x x_user hdr_email (it # its) =
     (case user it of
        None \<Rightarrow> filter_items x x_user hdr_email its
      | Some u \<Rightarrow>
          if u = [] then filter_items x x_user hdr_email its
          else if u = x_user then it # filter_items x x_user hdr_email its
          else
            (let stored_email = extract_email x u
             in if py_truthy hdr_email \<and> py_truthy stored_email \<and> py_eq hdr_email stored_email
                then it # filter_items x x_user hdr_email its
                else filter_items x x_user hdr_email its))"

definition list_transactions ::
  "env \<Rightarrow> ext \<Rightarrow> scan_outcome \<Rightarrow> int \<Rightarrow> string option \<Rightarrow> item list \<Rightarrow> error + item list" where
  "list_transactions e x scan limit x_user store =
     (case scan_items e scan limit store of
        Inl err \<Rightarrow> Inl err
      | Inr items \<Rightarrow>
          (case x_user of
             None \<Rightarrow> Inr items
           | Some f \<Rightarrow>
               if f = [] then Inr items
               else
                 (let hdr_email = extract_email x f;
                      filtered = filter_items x f hdr_email items
                  in Inr (py_slice_to limit filtered))))"

section \<open>clear_transactions\<close>

definition allow_clear :: "env \<Rightarrow> bool" where
  "allow_clear e =
     (lower (case ALLOW_CLEAR e of None \<Rightarrow> ''false'' | Some v \<Rightarrow> v)
        \<in> set [''1'', ''true'', ''yes''])"

definition clearing_disabled :: error where
  "clearing_disabled =
     HTTPException 403 ''Clearing DynamoDB-backed records is disabled in this environment.''"

definition clear_transactions :: "env \<Rightarrow> item list \<Rightarrow> (error + bool) \<times> item list" where
  "clear_transactions e store =
     (if str_truthy (DDB_TABLE e) \<and> \<not> allow_clear e then (Inl clearing_disabled, store)
      else (Inr True, []))"

section \<open>The specification's notions\<close>

text \<open>
  The tier the risk service provides, as the specification puts it: none when the service
  is unreachable, answers with something that is not JSON, or answers without one of the
  three recognised tiers.
\<close>

fun provided_tier :: "risk_reply \<Rightarrow> string option" where
  "provided_tier RiskError = None"
| "provided_tier RiskNotJson = None"
| "provided_tier (RiskJson (JDict kvs)) =
     (case map_of kvs ''risk_level'' of
        Some (JStr s) \<Rightarrow> if s = ''HIGH'' \<or> s = ''MEDIUM'' \<or> s = ''LOW'' then Some s else None
      | _ \<Rightarrow> None)"
| "provided_tier (RiskJson _) = None"

text \<open>
  The records an identity filter retains, in the specification's terms with its two
  conditions made exact: the identity is a non-empty string equal to the filter, or the
  emails decoded from the filter and from the identity are both truthy and equal.
\<close>

definition identity_matches :: "ext \<Rightarrow> string \<Rightarrow> item \<Rightarrow> bool" where
  "identity_matches x f it =
     (case user it of
        None \<Rightarrow> False
      | Some u \<Rightarrow>
          u \<noteq> [] \<and>
          (u = f \<or>
           (py_truthy (extract_email x f) \<and> py_truthy (extract_email x u)
            \<and> py_eq (extract_email x f) (extract_email x u))))"

section \<open>Example requests\<close>

definition env_default :: env where
  "env_default = \<lparr> DDB_TABLE = None, boto3 = True, ALLOW_CLEAR = None,
                    HIGH_RISK_AMOUNT = EnvUnset, GOOGLE_OAUTH_CLIENT_ID = None \<rparr>"

definition env_ddb :: env where
  "env_ddb = env_default \<lparr> DDB_TABLE := Some ''transactions'' \<rparr>"

definition env_no_boto3 :: env where
  "env_no_boto3 = env_ddb \<lparr> boto3 := False \<rparr>"

text \<open>\<open>json.loads\<close> on the identity strings of the examples; the others used are not JSON.\<close>

definition demo_loads :: "string \<Rightarrow> json option" where
  \<open>demo_loads s =
     (if s = ''{"email": ""}'' then Some (JDict [(''email'', JStr [])])
      else if s = ''{"name": "b", "email": ""}''
        then Some (JDict [(''name'', JStr ''b''), (''email'', JStr [])])
      else if s = ''{"name": "Al", "email": "al@x.io"}''
        then Some (JDict [(''name'', JStr ''Al''), (''email'', JStr ''al@x.io'')])
      else if s = ''{"email": "al@x.io"}'' then Some (JDict [(''email'', JStr ''al@x.io'')])
      else None)\<close>

text \<open>\<open>json.dumps\<close> on \<open>None\<close> and on the plain ASCII strings of the examples.\<close>

definition demo_dumps :: "json \<Rightarrow> string" where
  "demo_dumps v = (case v of JStr s \<Rightarrow> [CHR 0x22] @ s @ [CHR 0x22] | _ \<Rightarrow> ''null'')"

definition demo_verify :: "string \<Rightarrow> string option \<Rightarrow> (string \<times> json) list option" where
  "demo_verify token audience =
     (if token = ''good'' then Some [(''name'', JStr ''Al''), (''email'', JStr ''al@x.io'')]
      else None)"

definition ext_demo :: ext where
  "ext_demo = \<lparr> verify_oauth2_token = demo_verify, json_dumps = demo_dumps,
                 json_loads = demo_loads \<rparr>"

definition io_demo :: "risk_reply \<Rightarrow> put_outcome \<Rightarrow> create_io" where
  "io_demo reply put =
     \<lparr> risk_response = reply, uuid4 = ''id-1'', time_now = 1700000000, put_item = put \<rparr>"

definition request :: "rat \<Rightarrow> transaction" where
  "request a = \<lparr> amount = Fin a, currency = ''USD'', merchant = ''ACME'',
                  high_risk = False, risk_level = None \<rparr>"

definition stored :: "string \<Rightarrow> int \<Rightarrow> string \<Rightarrow> item" where
  "stored i ts u =
     \<lparr> amount = Fin 500, currency = ''USD'', merchant = ''ACME'', high_risk = False,
       risk_level = Some ''LOW'', item_id = i, timestamp = Some ts, user = Some u \<rparr>"

section \<open>Properties of the in-memory store\<close>

lemma memory_insert_Cons:
  "memory_insert record store = record # (if 200 \<le> length store then butlast store else store)"
  by (cases store) (auto simp: memory_insert_def Let_def)

lemma memory_insert_take:
  "length store \<le> 200 \<Longrightarrow> memory_insert record store = take 200 (record # store)"
  by (simp add: memory_insert_Cons butlast_conv_take)

lemma length_memory_insert:
  "length store \<le> 200 \<Longrightarrow> length (memory_insert record store) \<le> 200"
  by (simp add: memory_insert_take)

lemma set_memory_insert:
  "set (memory_insert record store) \<subseteq> insert record (set store)"
  by (auto simp: memory_insert_Cons dest: in_set_butlastD)

lemma length_save:
  "length store \<le> 200 \<Longrightarrow> length (snd (save_transaction_record e put record store)) \<le> 200"
  by (cases put) (simp_all add: save_transaction_record_def length_memory_insert)

lemma length_run_saves:
  "length store \<le> 200 \<Longrightarrow> length (run_saves ops store) \<le> 200"
proof (induction ops arbitrary: store)
  case Nil
  then show ?case by simp
next
  case (Cons a ops)
  obtain e p r where a: "a = (e, p, r)" by (cases a)
  show ?case unfolding a run_saves.simps
    by (rule Cons.IH) (rule length_save [OF Cons.prems])
qed

lemma memory_inserts_take:
  "length store \<le> 200 \<Longrightarrow> memory_inserts rs store = take 200 (rev rs @ store)"
proof (induction rs arbitrary: store)
  case Nil
  then show ?case by simp
next
  case (Cons r rs)
  have "memory_inserts (r # rs) store = take 200 (rev rs @ take 200 (r # store))"
    using Cons.prems Cons.IH [of "memory_insert r store"]
    by (simp add: length_memory_insert memory_insert_take del: take_Cons_numeral)
  also have "\<dots> = take 200 (rev rs @ r # store)"
    by (simp add: take_append del: take_Cons_numeral)
  finally show ?case by simp
qed

lemma save_memory_mode:
  "\<not> (boto3 e \<and> str_truthy (DDB_TABLE e)) \<Longrightarrow>
     save_transaction_record e put r store = (Inr False, memory_insert r store)"
  by (auto simp: save_transaction_record_def)

lemma run_saves_memory_mode:
  "\<forall>(e, p, r) \<in> set ops. \<not> (boto3 e \<and> str_truthy (DDB_TABLE e)) \<Longrightarrow>
     run_saves ops store = memory_inserts (map (\<lambda>(e, p, r). r) ops) store"
proof (induction ops arbitrary: store)
  case Nil
  then show ?case by simp
next
  case (Cons a ops)
  obtain e p r where a: "a = (e, p, r)" by (cases a)
  from Cons.prems have m: "\<not> (boto3 e \<and> str_truthy (DDB_TABLE e))"
    and rest: "\<forall>(e, p, r) \<in> set ops. \<not> (boto3 e \<and> str_truthy (DDB_TABLE e))"
    by (auto simp: a)
  show ?case
    by (simp add: a save_memory_mode [OF m] Cons.IH [OF rest])
qed

text \<open>
  C4. Starting from the empty store, after any run of saves (whatever the environment and
  the DynamoDB outcome of each) the in-memory store holds at most 200 records. With the
  memory backend, save_transaction_record puts the new record in front and, when that
  makes 201 or more, drops the last; a run of such saves from the empty store leaves the
  200 most recent records, newest first.
\<close>

theorem store_bounded:
  "length (run_saves ops []) \<le> 200
   \<and> (\<not> (boto3 e \<and> str_truthy (DDB_TABLE e)) \<longrightarrow>
        save_transaction_record e put new store
          = (Inr False, new # (if 200 \<le> length store then butlast store else store)))
   \<and> ((\<forall>(e, p, r) \<in> set ops. \<not> (boto3 e \<and> str_truthy (DDB_TABLE e))) \<longrightarrow>
        run_saves ops [] = take 200 (rev (map (\<lambda>(e, p, r). r) ops)))
   \<and> memory_inserts rs [] = take 200 (rev rs)
   \<and> memory_insert new store = new # (if 200 \<le> length store then butlast store else store)"
proof -
  have 1: "length (run_saves ops []) \<le> 200"
    using length_run_saves [of "[]" ops] by simp
  have 2: "\<not> (boto3 e \<and> str_truthy (DDB_TABLE e)) \<longrightarrow>
        save_transaction_record e put new store
          = (Inr False, new # (if 200 \<le> length store then butlast store else store))"
    using save_memory_mode [of e put new store] by (simp add: memory_insert_Cons)
  have 3: "(\<forall>(e, p, r) \<in> set ops. \<not> (boto3 e \<and> str_truthy (DDB_TABLE e))) \<longrightarrow>
        run_saves ops [] = take 200 (rev (map (\<lambda>(e, p, r). r) ops))"
    using run_saves_memory_mode [of ops "[]"]
      memory_inserts_take [of "[]" "map (\<lambda>(e, p, r). r) ops"]
    by (simp add: rev_map)
  have 4: "memory_inserts rs [] = take 200 (rev rs)"
    using memory_inserts_take [of "[]" rs] by simp
  show ?thesis
    using 1 2 3 4 memory_insert_Cons [of new store] by blast
qed

theorem store_bounded_witness:
  "\<not> (boto3 env_default \<and> str_truthy (DDB_TABLE env_default))
   \<and> save_transaction_record env_default PutOk (stored ''new'' 9 ''alice'')
        (replicate 199 (stored ''mid'' 5 ''bob'') @ [stored ''old'' 1 ''carol''])
      = (Inr False, stored ''new'' 9 ''alice'' # replicate 199 (stored ''mid'' 5 ''bob''))
   \<and> save_transaction_record env_default PutOk (stored ''new'' 9 ''alice'')
        [stored ''old'' 1 ''carol'']
      = (Inr False, [stored ''new'' 9 ''alice'', stored ''old'' 1 ''carol''])
   \<and> run_saves [(env_default, PutOk, stored ''old'' 1 ''carol''),
                 (env_no_boto3, PutOk, stored ''new'' 9 ''alice'')] []
      = [stored ''new'' 9 ''alice'', stored ''old'' 1 ''carol'']"
proof -
  have h: "\<not> (boto3 env_default \<and> str_truthy (DDB_TABLE env_default))"
    by (simp add: env_default_def str_truthy_def)
  have h2: "\<forall>(e, p, r) \<in> set [(env_default, PutOk, stored ''old'' 1 ''carol''),
                 (env_no_boto3, PutOk, stored ''new'' 9 ''alice'')].
              \<not> (boto3 e \<and> str_truthy (DDB_TABLE e))"
    by (simp add: env_default_def env_no_boto3_def env_ddb_def str_truthy_def)
  from store_bounded [where e = env_default and put = PutOk
      and new = "stored ''new'' 9 ''alice''"
      and store = "replicate 199 (stored ''mid'' 5 ''bob'') @ [stored ''old'' 1 ''carol'']"]
    store_bounded [where e = env_default and put = PutOk
      and new = "stored ''new'' 9 ''alice''"
      and store = "[stored ''old'' 1 ''carol'']"
      and ops = "[(env_default, PutOk, stored ''old'' 1 ''carol''),
                 (env_no_boto3, PutOk, stored ''new'' 9 ''alice'')]"]
  show ?thesis
    using h h2 by (simp add: butlast_append)
qed

section \<open>Properties of create_transaction\<close>

lemmas create_eval =
  create_transaction_def resolve_user_def bearer_value_def io_demo_def env_default_def
  env_ddb_def env_no_boto3_def request_def save_transaction_record_def str_truthy_def
  memory_insert_def is_high_of_def risk_level_of_def dict_get_def Let_def
  split_space_1_def ext_demo_def demo_verify_def demo_dumps_def encode_identity_def
  invalid_token_def missing_authentication_def

lemma py_eq_JStr: "py_eq v (JStr s) = (v = JStr s)"
  by (cases v) auto

lemma provided_tier_None:
  "provided_tier reply = None \<Longrightarrow>
     get_risk_level (risk_data_of reply) \<notin> {JStr ''HIGH'', JStr ''MEDIUM'', JStr ''LOW''}"
  by (induction reply rule: provided_tier.induct)
     (auto simp: dict_get_def split: option.splits json.splits if_splits)

lemma provided_tier_Some:
  "provided_tier reply = Some s \<Longrightarrow>
     get_risk_level (risk_data_of reply) = JStr s \<and> (s = ''HIGH'' \<or> s = ''MEDIUM'' \<or> s = ''LOW'')"
  by (induction reply rule: provided_tier.induct)
     (auto simp: dict_get_def split: option.splits json.splits if_splits)

lemma create_transaction_Inr:
  assumes "create_transaction e x io t x_user authorization store = (Inr r, store')"
  shows "\<exists>u. resolve_user e x x_user authorization = Inr u
           \<and> r = \<lparr> amount = amount t, currency = currency t, merchant = merchant t,
                   high_risk = is_high_of (get_risk_level (risk_data_of (risk_response io)))
                                 (amount t) (high_risk_amount (HIGH_RISK_AMOUNT e)),
                   risk_level = risk_level_of (get_risk_level (risk_data_of (risk_response io)))
                                 (amount t),
                   item_id = uuid4 io, timestamp = Some (time_now io), user = Some u \<rparr>
           \<and> (\<exists>b. save_transaction_record e (put_item io) r store = (Inr b, store'))"
  using assms
  by (auto simp: create_transaction_def Let_def split: sum.splits prod.splits)

lemma risk_level_of_known:
  "risk_level_of rl amt \<in> {Some ''HIGH'', Some ''MEDIUM'', Some ''LOW''}"
  by (auto simp: risk_level_of_def py_eq_JStr)

lemma save_store:
  "save_transaction_record e put r store = (Inr b, store') \<Longrightarrow>
     store' = (if boto3 e \<and> str_truthy (DDB_TABLE e) \<and> put = PutOk then store
               else memory_insert r store)"
  by (cases put) (auto simp: save_transaction_record_def split: if_splits)

lemma bearer_value_None:
  assumes "\<not> (\<exists>token. authorization = Some (''Bearer '' @ token))"
  shows "bearer_value authorization = None"
proof (cases authorization)
  case None
  then show ?thesis by (simp add: bearer_value_def)
next
  case (Some a)
  have "take 7 a \<noteq> ''Bearer ''"
  proof
    assume "take 7 a = ''Bearer ''"
    then have "a = ''Bearer '' @ drop 7 a" by (metis append_take_drop_id)
    with Some assms show False by blast
  qed
  with Some show ?thesis by (simp add: bearer_value_def)
qed

lemma resolve_user_bearer:
  "resolve_user e x x_user (Some (''Bearer '' @ token)) =
     (case verify_oauth2_token x token
             (if str_truthy (GOOGLE_OAUTH_CLIENT_ID e) then GOOGLE_OAUTH_CLIENT_ID e else None) of
        None \<Rightarrow> Inl invalid_token
      | Some payload \<Rightarrow> Inr (encode_identity x payload))"
  by (simp add: resolve_user_def bearer_value_def split_space_1_def encode_identity_def Let_def
      split: option.splits)

text \<open>
  C1. When the risk service provides no recognised tier (it is unreachable, its body is not
  JSON, or the value is not one of the three tiers), the returned record has
  \<open>high_risk = (amount >= threshold)\<close>, the threshold being the integer configured in
  HIGH_RISK_AMOUNT, and 10000 when that is unset or not an integer; its \<open>risk_level\<close>
  comes from the fixed bands: above 10000 HIGH, above 1000 MEDIUM, else LOW. With the
  default threshold, the amount 10000 gives \<open>high_risk = True\<close> with
  \<open>risk_level = MEDIUM\<close>; with the threshold 5000, so does the amount 6000.
\<close>

theorem fallback_classification:
  assumes "provided_tier (risk_response io) = None"
    and "create_transaction e x io t x_user authorization store = (Inr r, store')"
  shows "high_risk r =
           float_ge_int (amount t)
             (case HIGH_RISK_AMOUNT e of EnvUnset \<Rightarrow> 10000 | EnvInt n \<Rightarrow> n | EnvNotInt \<Rightarrow> 10000)
     \<and> risk_level r = Some (if float_gt_int (amount t) 10000 then ''HIGH''
                            else if float_gt_int (amount t) 1000 then ''MEDIUM'' else ''LOW'')
     \<and> (HIGH_RISK_AMOUNT e = EnvUnset \<and> amount t = Fin 10000
          \<longrightarrow> high_risk r \<and> risk_level r = Some ''MEDIUM'')
     \<and> (HIGH_RISK_AMOUNT e = EnvInt 5000 \<and> amount t = Fin 6000
          \<longrightarrow> high_risk r \<and> risk_level r = Some ''MEDIUM'')"
proof -
  let ?rl = "get_risk_level (risk_data_of (risk_response io))"
  from provided_tier_None [OF assms(1)]
  have no: "?rl \<noteq> JStr ''HIGH''" "?rl \<noteq> JStr ''MEDIUM''" "?rl \<noteq> JStr ''LOW''"
    by auto
  from create_transaction_Inr [OF assms(2)]
  have hr: "high_risk r = is_high_of ?rl (amount t) (high_risk_amount (HIGH_RISK_AMOUNT e))"
    and rl: "risk_level r = risk_level_of ?rl (amount t)"
    by auto
  have thr: "high_risk_amount (HIGH_RISK_AMOUNT e) =
      (case HIGH_RISK_AMOUNT e of EnvUnset \<Rightarrow> 10000 | EnvInt n \<Rightarrow> n | EnvNotInt \<Rightarrow> 10000)"
    by (cases "HIGH_RISK_AMOUNT e") simp_all
  have 1: "high_risk r =
           float_ge_int (amount t)
             (case HIGH_RISK_AMOUNT e of EnvUnset \<Rightarrow> 10000 | EnvInt n \<Rightarrow> n | EnvNotInt \<Rightarrow> 10000)"
    using no by (simp add: hr is_high_of_def py_eq_JStr thr)
  have 2: "risk_level r = Some (if float_gt_int (amount t) 10000 then ''HIGH''
                            else if float_gt_int (amount t) 1000 then ''MEDIUM'' else ''LOW'')"
    using no by (simp add: rl risk_level_of_def py_eq_JStr)
  show ?thesis using 1 2 by simp
qed

theorem fallback_classification_witness:
  "provided_tier (risk_response (io_demo RiskError PutOk)) = None
   \<and> create_transaction env_default ext_demo (io_demo RiskError PutOk) (request 10000)
            (Some ''alice'') None []
       = (Inr \<lparr> amount = Fin 10000, currency = ''USD'', merchant = ''ACME'', high_risk = True,
               risk_level = Some ''MEDIUM'', item_id = ''id-1'',
               timestamp = Some 1700000000, user = Some ''alice'' \<rparr>,
          [\<lparr> amount = Fin 10000, currency = ''USD'', merchant = ''ACME'', high_risk = True,
               risk_level = Some ''MEDIUM'', item_id = ''id-1'',
               timestamp = Some 1700000000, user = Some ''alice'' \<rparr>])
   \<and> HIGH_RISK_AMOUNT env_default = EnvUnset
   \<and> float_ge_int (Fin 10000) 10000
   \<and> create_transaction (env_default \<lparr> HIGH_RISK_AMOUNT := EnvInt 5000 \<rparr>) ext_demo
          (io_demo RiskError PutOk) (request 6000) (Some ''alice'') None []
       = (Inr \<lparr> amount = Fin 6000, currency = ''USD'', merchant = ''ACME'', high_risk = True,
               risk_level = Some ''MEDIUM'', item_id = ''id-1'',
               timestamp = Some 1700000000, user = Some ''alice'' \<rparr>,
          [\<lparr> amount = Fin 6000, currency = ''USD'', merchant = ''ACME'', high_risk = True,
               risk_level = Some ''MEDIUM'', item_id = ''id-1'',
               timestamp = Some 1700000000, user = Some ''alice'' \<rparr>])
   \<and> float_ge_int (Fin 6000) 5000 \<and> \<not> float_ge_int (Fin 6000) 10000
   \<and> fst (create_transaction (env_default \<lparr> HIGH_RISK_AMOUNT := EnvInt 20000 \<rparr>) ext_demo
          (io_demo RiskError PutOk) (request 15000) (Some ''alice'') None [])
       = Inr \<lparr> amount = Fin 15000, currency = ''USD'', merchant = ''ACME'', high_risk = False,
               risk_level = Some ''HIGH'', item_id = ''id-1'',
               timestamp = Some 1700000000, user = Some ''alice'' \<rparr>"
proof -
  let ?r = "\<lparr> amount = Fin 10000, currency = ''USD'', merchant = ''ACME'', high_risk = True,
               risk_level = Some ''MEDIUM'', item_id = ''id-1'',
               timestamp = Some 1700000000, user = Some ''alice'' \<rparr>"
  let ?r' = "\<lparr> amount = Fin 6000, currency = ''USD'', merchant = ''ACME'', high_risk = True,
               risk_level = Some ''MEDIUM'', item_id = ''id-1'',
               timestamp = Some 1700000000, user = Some ''alice'' \<rparr>"
  let ?r'' = "\<lparr> amount = Fin 15000, currency = ''USD'', merchant = ''ACME'', high_risk = False,
               risk_level = Some ''HIGH'', item_id = ''id-1'',
               timestamp = Some 1700000000, user = Some ''alice'' \<rparr>"
  have h1: "provided_tier (risk_response (io_demo RiskError PutOk)) = None"
    by (simp add: io_demo_def)
  have h2: "create_transaction env_default ext_demo (io_demo RiskError PutOk) (request 10000)
            (Some ''alice'') None [] = (Inr ?r, [?r])"
    by (simp add: create_eval)
  have h3: "create_transaction (env_default \<lparr> HIGH_RISK_AMOUNT := EnvInt 5000 \<rparr>) ext_demo
          (io_demo RiskError PutOk) (request 6000) (Some ''alice'') None [] = (Inr ?r', [?r'])"
    by (simp add: create_eval)
  have h4: "create_transaction (env_default \<lparr> HIGH_RISK_AMOUNT := EnvInt 20000 \<rparr>) ext_demo
          (io_demo RiskError PutOk) (request 15000) (Some ''alice'') None [] = (Inr ?r'', [?r''])"
    by (simp add: create_eval)
  from fallback_classification [OF h1 h2] fallback_classification [OF h1 h3]
    fallback_classification [OF h1 h4]
  show ?thesis
    using h1 h2 h3 h4 by (simp add: env_default_def request_def)
qed

text \<open>
  C2. When the risk service returns a recognised tier, the returned record carries that
  tier as its \<open>risk_level\<close>, and \<open>high_risk\<close> is true exactly when the tier is HIGH,
  whatever the amount.
\<close>

theorem provided_tier_used:
  assumes "provided_tier (risk_response io) = Some tier"
    and "create_transaction e x io t x_user authorization store = (Inr r, store')"
  shows "risk_level r = Some tier \<and> high_risk r = (tier = ''HIGH'')"
proof -
  let ?rl = "get_risk_level (risk_data_of (risk_response io))"
  from provided_tier_Some [OF assms(1)]
  have rl: "?rl = JStr tier" and tier: "tier = ''HIGH'' \<or> tier = ''MEDIUM'' \<or> tier = ''LOW''"
    by auto
  from create_transaction_Inr [OF assms(2)]
  have "high_risk r = is_high_of (JStr tier) (amount t) (high_risk_amount (HIGH_RISK_AMOUNT e))"
    and "risk_level r = risk_level_of (JStr tier) (amount t)"
    by (auto simp: rl)
  then show ?thesis
    using tier by (auto simp: is_high_of_def risk_level_of_def)
qed

theorem provided_tier_used_witness:
  "provided_tier (risk_response (io_demo (RiskJson (JDict [(''risk_level'', JStr ''LOW'')])) PutOk))
     = Some ''LOW''
   \<and> fst (create_transaction env_default ext_demo
            (io_demo (RiskJson (JDict [(''risk_level'', JStr ''LOW'')])) PutOk) (request 50000)
            (Some ''alice'') None [])
       = Inr \<lparr> amount = Fin 50000, currency = ''USD'', merchant = ''ACME'', high_risk = False,
               risk_level = Some ''LOW'', item_id = ''id-1'',
               timestamp = Some 1700000000, user = Some ''alice'' \<rparr>"
proof -
  let ?io = "io_demo (RiskJson (JDict [(''risk_level'', JStr ''LOW'')])) PutOk"
  let ?r = "\<lparr> amount = Fin 50000, currency = ''USD'', merchant = ''ACME'', high_risk = False,
               risk_level = Some ''LOW'', item_id = ''id-1'',
               timestamp = Some 1700000000, user = Some ''alice'' \<rparr>"
  have h1: "provided_tier (risk_response ?io) = Some ''LOW''"
    by (simp add: io_demo_def)
  have h2: "create_transaction env_default ext_demo ?io (request 50000)
            (Some ''alice'') None [] = (Inr ?r, [?r])"
    by (simp add: create_eval)
  from provided_tier_used [OF h1 h2] show ?thesis using h1 h2 by simp
qed

text \<open>
  C3. The record a successful create_transaction returns has a \<open>risk_level\<close> among HIGH,
  MEDIUM and LOW, never an absent or other one, whatever the risk service did; and that
  record is the one persisted: the store is left as it was when DynamoDB took the record,
  and otherwise holds it in front.
\<close>

theorem tier_always_set:
  assumes "create_transaction e x io t x_user authorization store = (Inr r, store')"
  shows "risk_level r \<in> {Some ''HIGH'', Some ''MEDIUM'', Some ''LOW''}
     \<and> store' = (if boto3 e \<and> str_truthy (DDB_TABLE e) \<and> put_item io = PutOk then store
                 else memory_insert r store)"
proof -
  from create_transaction_Inr [OF assms]
  obtain b where rl: "risk_level r =
        risk_level_of (get_risk_level (risk_data_of (risk_response io))) (amount t)"
    and sv: "save_transaction_record e (put_item io) r store = (Inr b, store')"
    by auto
  show ?thesis
    using risk_level_of_known [of "get_risk_level (risk_data_of (risk_response io))" "amount t"]
      save_store [OF sv]
    unfolding rl by simp
qed

theorem tier_always_set_witness:
  "create_transaction env_default ext_demo
      (io_demo (RiskJson (JDict [(''risk_level'', JStr ''UNKNOWN'')])) PutOk) (request 500)
      (Some ''alice'') None []
     = (Inr \<lparr> amount = Fin 500, currency = ''USD'', merchant = ''ACME'', high_risk = False,
               risk_level = Some ''LOW'', item_id = ''id-1'',
               timestamp = Some 1700000000, user = Some ''alice'' \<rparr>,
        [\<lparr> amount = Fin 500, currency = ''USD'', merchant = ''ACME'', high_risk = False,
               risk_level = Some ''LOW'', item_id = ''id-1'',
               timestamp = Some 1700000000, user = Some ''alice'' \<rparr>])
   \<and> Some ''LOW'' \<in> {Some ''HIGH'', Some ''MEDIUM'', Some ''LOW''}"
proof -
  let ?io = "io_demo (RiskJson (JDict [(''risk_level'', JStr ''UNKNOWN'')])) PutOk"
  let ?r = "\<lparr> amount = Fin 500, currency = ''USD'', merchant = ''ACME'', high_risk = False,
               risk_level = Some ''LOW'', item_id = ''id-1'',
               timestamp = Some 1700000000, user = Some ''alice'' \<rparr>"
  have h: "create_transaction env_default ext_demo ?io (request 500)
            (Some ''alice'') None [] = (Inr ?r, [?r])"
    by (simp add: create_eval)
  from tier_always_set [OF h] show ?thesis using h by simp
qed

text \<open>
  C5. A Bearer authorization value takes precedence over the X-User header: when the token
  fails verification the request ends with the 401 for an invalid token and the store
  untouched, whatever X-User holds; when it verifies, the identity is the one encoded from
  the token's claims, whatever X-User holds. With no Bearer value and no X-User header the
  request ends with the 401 for missing authentication, and nothing is stored.
\<close>

theorem identity_resolution:
  assumes "verify_oauth2_token x bad
             (if str_truthy (GOOGLE_OAUTH_CLIENT_ID e) then GOOGLE_OAUTH_CLIENT_ID e else None)
           = None"
    and "verify_oauth2_token x good
             (if str_truthy (GOOGLE_OAUTH_CLIENT_ID e) then GOOGLE_OAUTH_CLIENT_ID e else None)
           = Some payload"
    and "\<not> (\<exists>token. authorization = Some (''Bearer '' @ token))"
  shows "create_transaction e x io t x_user (Some (''Bearer '' @ bad)) store
           = (Inl (HTTPException 401 ''Invalid Google ID token''), store)
     \<and> resolve_user e x x_user (Some (''Bearer '' @ good)) = Inr (encode_identity x payload)
     \<and> create_transaction e x io t None authorization store
           = (Inl (HTTPException 401
                ''Missing authentication. Provide Authorization Bearer token or X-User header.''),
              store)"
proof -
  have 1: "resolve_user e x x_user (Some (''Bearer '' @ bad)) = Inl invalid_token"
    by (subst resolve_user_bearer) (simp add: assms(1))
  have 2: "resolve_user e x x_user (Some (''Bearer '' @ good)) = Inr (encode_identity x payload)"
    by (subst resolve_user_bearer) (simp add: assms(2))
  have 3: "resolve_user e x None authorization = Inl missing_authentication"
    by (simp add: resolve_user_def bearer_value_None [OF assms(3)])
  show ?thesis
    using 1 2 3
    by (simp add: create_transaction_def invalid_token_def missing_authentication_def)
qed

theorem identity_resolution_witness:
  "create_transaction env_default ext_demo (io_demo RiskError PutOk) (request 500)
       (Some ''alice'') (Some ''Bearer forged'') []
     = (Inl (HTTPException 401 ''Invalid Google ID token''), [])
   \<and> resolve_user env_default ext_demo (Some ''alice'') (Some ''Bearer good'')
     = Inr (encode_identity ext_demo [(''name'', JStr ''Al''), (''email'', JStr ''al@x.io'')])
   \<and> create_transaction env_default ext_demo (io_demo RiskError PutOk) (request 500)
       None None []
     = (Inl (HTTPException 401
          ''Missing authentication. Provide Authorization Bearer token or X-User header.''), [])"
proof -
  have h1: "verify_oauth2_token ext_demo ''forged''
             (if str_truthy (GOOGLE_OAUTH_CLIENT_ID env_default)
              then GOOGLE_OAUTH_CLIENT_ID env_default else None) = None"
    by (simp add: ext_demo_def demo_verify_def)
  have h2: "verify_oauth2_token ext_demo ''good''
             (if str_truthy (GOOGLE_OAUTH_CLIENT_ID env_default)
              then GOOGLE_OAUTH_CLIENT_ID env_default else None)
            = Some [(''name'', JStr ''Al''), (''email'', JStr ''al@x.io'')]"
    by (simp add: ext_demo_def demo_verify_def)
  have h3: "\<not> (\<exists>token. (None :: string option) = Some (''Bearer '' @ token))"
    by simp
  from identity_resolution [OF h1 h2 h3, where io = "io_demo RiskError PutOk"
      and t = "request 500" and x_user = "Some ''alice''" and store = "[]"]
  show ?thesis by simp
qed

section \<open>Properties of persistence, listing and clearing\<close>

lemmas list_eval =
  list_transactions_def scan_items_def py_slice_to_def env_default_def env_ddb_def
  str_truthy_def stored_def extract_email_def ext_demo_def demo_loads_def dict_get_def
  Let_def identity_matches_def

lemma allow_clear_iff:
  "allow_clear e = (\<exists>v. ALLOW_CLEAR e = Some v \<and> lower v \<in> {''1'', ''true'', ''yes''})"
  by (cases "ALLOW_CLEAR e") (simp_all add: allow_clear_def lower_def ascii_lower_def)

lemma str_truthy_iff: "str_truthy s = (\<exists>n. s = Some n \<and> n \<noteq> [])"
  by (cases s) (simp_all add: str_truthy_def)

lemma py_slice_to_take: "0 \<le> n \<Longrightarrow> py_slice_to n xs = take (nat n) xs"
  by (simp add: py_slice_to_def)

lemma scan_items_length:
  "0 \<le> limit \<Longrightarrow> scan_items e scan limit store = Inr items \<Longrightarrow> length items \<le> nat limit"
  by (cases scan) (auto simp: scan_items_def py_slice_to_take split: if_splits)

lemma sorted_desc_sorted:
  "sorted_wrt (\<lambda>a b. timestamp_key b \<le> timestamp_key a) (sorted_desc found)"
proof -
  have "sorted (map (\<lambda>it. - timestamp_key it) (sorted_desc found))"
    unfolding sorted_desc_def by (rule sorted_sort_key)
  then show ?thesis by (simp add: sorted_map)
qed

lemma filter_items_eq:
  "f \<noteq> [] \<Longrightarrow>
     filter_items x f (extract_email x f) items = filter (identity_matches x f) items"
  by (induction items) (auto simp: identity_matches_def Let_def split: option.splits)

text \<open>
  C6. DELETE /transactions fails with the 403 and leaves the in-memory store as it is when a
  table name is configured and the override is not set (ALLOW_CLEAR absent, or not one of
  1, true, yes in any letter case); in every other case it empties the in-memory store and
  reports success.
\<close>

theorem clear_guard:
  "clear_transactions e store =
     (if (\<exists>n. DDB_TABLE e = Some n \<and> n \<noteq> [])
          \<and> \<not> (\<exists>v. ALLOW_CLEAR e = Some v \<and> lower v \<in> {''1'', ''true'', ''yes''})
      then (Inl (HTTPException 403
              ''Clearing DynamoDB-backed records is disabled in this environment.''), store)
      else (Inr True, []))"
  unfolding clear_transactions_def clearing_disabled_def allow_clear_iff str_truthy_iff
  by (rule refl)

theorem clear_guard_witness:
  "clear_transactions env_ddb [stored ''a'' 1 ''alice''] =
     (Inl (HTTPException 403
        ''Clearing DynamoDB-backed records is disabled in this environment.''),
      [stored ''a'' 1 ''alice''])
   \<and> clear_transactions (env_ddb \<lparr> ALLOW_CLEAR := Some ''TRUE'' \<rparr>) [stored ''a'' 1 ''alice'']
       = (Inr True, [])
   \<and> clear_transactions env_default [stored ''a'' 1 ''alice''] = (Inr True, [])"
  using clear_guard [of env_ddb "[stored ''a'' 1 ''alice'']"]
    clear_guard [of "env_ddb \<lparr> ALLOW_CLEAR := Some ''TRUE'' \<rparr>" "[stored ''a'' 1 ''alice'']"]
    clear_guard [of env_default "[stored ''a'' 1 ''alice'']"]
  by (simp add: env_ddb_def env_default_def lower_def ascii_lower_def)

text \<open>
  C7, as amended. For a limit that is not negative and an identity filter, listing returns
  exactly the scanned records, in scan order, whose identity is a non-empty string equal to
  the filter, or whose decoded email and the filter's decoded email are both truthy (not
  null, not empty) and equal. Every other record is left out, and no error is raised.
\<close>

theorem identity_filter:
  assumes "0 \<le> limit" and "f \<noteq> []"
    and "scan_items e scan limit store = Inr items"
  shows "list_transactions e x scan limit (Some f) store
           = Inr (filter (identity_matches x f) items)"
proof -
  have "length (filter (identity_matches x f) items) \<le> nat limit"
    using scan_items_length [OF assms(1,3)] length_filter_le [of "identity_matches x f" items]
    by linarith
  then have "py_slice_to limit (filter (identity_matches x f) items)
               = filter (identity_matches x f) items"
    by (simp add: py_slice_to_take [OF assms(1)])
  then show ?thesis
    using assms(2,3) by (simp add: list_transactions_def Let_def filter_items_eq)
qed

theorem identity_filter_witness:
  \<open>(0::int) \<le> 20 \<and> ''{"email": "al@x.io"}'' \<noteq> []
   \<and> scan_items env_default (ScanOk []) 20
        [stored ''c'' 3 ''{"name": "Al", "email": "al@x.io"}'', stored ''b'' 2 ''bob'',
         stored ''a'' 1 ''{"email": "al@x.io"}'']
      = Inr [stored ''c'' 3 ''{"name": "Al", "email": "al@x.io"}'', stored ''b'' 2 ''bob'',
         stored ''a'' 1 ''{"email": "al@x.io"}'']
   \<and> list_transactions env_default ext_demo (ScanOk []) 20 (Some ''{"email": "al@x.io"}'')
        [stored ''c'' 3 ''{"name": "Al", "email": "al@x.io"}'', stored ''b'' 2 ''bob'',
         stored ''a'' 1 ''{"email": "al@x.io"}'']
      = Inr [stored ''c'' 3 ''{"name": "Al", "email": "al@x.io"}'',
             stored ''a'' 1 ''{"email": "al@x.io"}'']\<close>
proof -
  let ?store = \<open>[stored ''c'' 3 ''{"name": "Al", "email": "al@x.io"}'', stored ''b'' 2 ''bob'',
         stored ''a'' 1 ''{"email": "al@x.io"}'']\<close>
  have h1: "(0::int) \<le> 20" by simp
  have h2: \<open>''{"email": "al@x.io"}'' \<noteq> []\<close> by simp
  have h3: "scan_items env_default (ScanOk []) 20 ?store = Inr ?store"
    by (simp add: scan_items_def py_slice_to_def env_default_def str_truthy_def)
  from identity_filter [OF h1 h2 h3, of ext_demo]
  show ?thesis
    using h3 by (simp add: identity_matches_def stored_def extract_email_def ext_demo_def
        demo_loads_def dict_get_def)
qed

text \<open>
  C7 as stated fails twice. With \<open>limit = -1\<close> the scan of two records of alice yields
  the first, which the filter alice keeps, and the second cut \<open>filtered[:limit]\<close> then
  drops it: the answer is empty. And two identities whose decoded emails are both the empty
  string do not match, since an empty email is falsy.
\<close>

theorem identity_filter_counterexample:
  \<open>scan_items env_default (ScanOk []) (- 1) [stored ''b'' 2 ''alice'', stored ''a'' 1 ''alice'']
     = Inr [stored ''b'' 2 ''alice'']
   \<and> user (stored ''b'' 2 ''alice'') = Some ''alice''
   \<and> list_transactions env_default ext_demo (ScanOk []) (- 1) (Some ''alice'')
        [stored ''b'' 2 ''alice'', stored ''a'' 1 ''alice''] = Inr []
   \<and> extract_email ext_demo ''{"email": ""}'' = JStr []
   \<and> extract_email ext_demo ''{"name": "b", "email": ""}'' = JStr []
   \<and> list_transactions env_default ext_demo (ScanOk []) 20 (Some ''{"email": ""}'')
        [stored ''a'' 1 ''{"name": "b", "email": ""}''] = Inr []\<close>
  by (simp add: list_eval)

text \<open>
  What save_transaction_record does in the cases its \<open>except\<close> clause covers: it returns
  true exactly when the record was written to DynamoDB, leaving the in-memory store alone;
  with no durable backend, or a write that raises BotoCoreError or ClientError, the record
  goes to the front of the in-memory store and the result is false. create_transaction
  fails only when the identity does, or when the write raises an exception of another
  class.
\<close>

lemma save_caught_cases:
  "save_transaction_record e PutOk r store =
     (if boto3 e \<and> str_truthy (DDB_TABLE e) then (Inr True, store)
      else (Inr False, memory_insert r store))
   \<and> save_transaction_record e PutBotoError r store = (Inr False, memory_insert r store)
   \<and> (fst (save_transaction_record e put r store) = Inr True)
       = (boto3 e \<and> str_truthy (DDB_TABLE e) \<and> put = PutOk)
   \<and> (\<exists>err. fst (create_transaction e x io t x_user authorization store) = Inl err)
       = ((\<exists>err. resolve_user e x x_user authorization = Inl err)
          \<or> (boto3 e \<and> str_truthy (DDB_TABLE e) \<and> put_item io = PutOtherError))"
proof -
  have 1: "(fst (save_transaction_record e put r store) = Inr True)
       = (boto3 e \<and> str_truthy (DDB_TABLE e) \<and> put = PutOk)"
    by (cases put) (simp_all add: save_transaction_record_def)
  have 2: "(\<exists>err. fst (create_transaction e x io t x_user authorization store) = Inl err)
       = ((\<exists>err. resolve_user e x x_user authorization = Inl err)
          \<or> (boto3 e \<and> str_truthy (DDB_TABLE e) \<and> put_item io = PutOtherError))"
    by (cases "put_item io"; cases "resolve_user e x x_user authorization")
       (simp_all add: create_transaction_def save_transaction_record_def Let_def)
  show ?thesis
    using 1 2 by (simp add: save_transaction_record_def)
qed

text \<open>
  C8. The claim: a save returns true if and only if the record was written to the durable
  backend, and on any durable write failure the record goes to the front of the in-memory
  store, the result is false and the request does not fail. The code falls short of it.
  With a table configured, the write of the request below raises an exception that is
  neither a BotoCoreError nor a ClientError (the record's amount is a Python float, which
  boto3 refuses with a TypeError): nothing catches it, the record reaches neither store
  and the request fails. The same request falls back as the claim says when the write
  raises one of the two classes the clause names.
\<close>

theorem save_uncaught_exception:
  "save_transaction_record env_ddb PutOtherError (stored ''a'' 1 ''alice'') []
     = (Inl Unhandled, [])
   \<and> create_transaction env_ddb ext_demo (io_demo RiskError PutOtherError) (request 500)
       (Some ''alice'') None [] = (Inl Unhandled, [])
   \<and> create_transaction env_ddb ext_demo (io_demo RiskError PutBotoError) (request 500)
       (Some ''alice'') None []
     = (Inr \<lparr> amount = Fin 500, currency = ''USD'', merchant = ''ACME'', high_risk = False,
              risk_level = Some ''LOW'', item_id = ''id-1'',
              timestamp = Some 1700000000, user = Some ''alice'' \<rparr>,
        [\<lparr> amount = Fin 500, currency = ''USD'', merchant = ''ACME'', high_risk = False,
              risk_level = Some ''LOW'', item_id = ''id-1'',
              timestamp = Some 1700000000, user = Some ''alice'' \<rparr>])"
  by (simp add: create_eval)

text \<open>
  C9, as amended. For a limit that is not negative, the scan returns at most \<open>limit\<close>
  records. With the durable backend they are the first \<open>limit\<close> of the retrieved items
  sorted by timestamp, descending; when the read raises BotoCoreError or ClientError they
  are the first \<open>limit\<close> entries of the in-memory store, as they are with the memory
  backend; and that store, filled by inserts, is newest first.
\<close>

theorem scan_bounded:
  assumes "0 \<le> limit"
  shows "(\<forall>items. scan_items e scan limit store = Inr items \<longrightarrow> length items \<le> nat limit)
     \<and> scan_items e scan limit store =
         (if boto3 e \<and> str_truthy (DDB_TABLE e) then
            (case scan of
               ScanOk found \<Rightarrow> Inr (take (nat limit) (sorted_desc found))
             | ScanBotoError \<Rightarrow> Inr (take (nat limit) store)
             | ScanOtherError \<Rightarrow> Inl Unhandled)
          else Inr (take (nat limit) store))
     \<and> sorted_wrt (\<lambda>a b. timestamp_key b \<le> timestamp_key a) (sorted_desc found)
     \<and> mset (sorted_desc found) = mset found
     \<and> take (nat limit) (memory_inserts rs []) = take (min (nat limit) 200) (rev rs)"
proof -
  have 1: "\<forall>items. scan_items e scan limit store = Inr items \<longrightarrow> length items \<le> nat limit"
    using scan_items_length [OF assms] by blast
  have 2: "scan_items e scan limit store =
         (if boto3 e \<and> str_truthy (DDB_TABLE e) then
            (case scan of
               ScanOk found \<Rightarrow> Inr (take (nat limit) (sorted_desc found))
             | ScanBotoError \<Rightarrow> Inr (take (nat limit) store)
             | ScanOtherError \<Rightarrow> Inl Unhandled)
          else Inr (take (nat limit) store))"
    by (cases scan) (simp_all add: scan_items_def py_slice_to_take [OF assms])
  have 3: "mset (sorted_desc found) = mset found"
    by (simp add: sorted_desc_def)
  have 4: "take (nat limit) (memory_inserts rs []) = take (min (nat limit) 200) (rev rs)"
    using memory_inserts_take [of "[]" rs] by (simp add: min.commute)
  show ?thesis
    using 1 2 3 4 sorted_desc_sorted [of found] by blast
qed

theorem scan_bounded_witness:
  "(0::int) \<le> 1
   \<and> scan_items env_ddb (ScanOk [stored ''a'' 1 ''alice'', stored ''b'' 2 ''bob'']) 1 []
       = Inr [stored ''b'' 2 ''bob'']
   \<and> scan_items env_ddb ScanBotoError 1 [stored ''b'' 2 ''bob'', stored ''a'' 1 ''alice'']
       = Inr [stored ''b'' 2 ''bob'']
   \<and> scan_items env_default (ScanOk []) 1 [stored ''b'' 2 ''bob'', stored ''a'' 1 ''alice'']
       = Inr [stored ''b'' 2 ''bob'']
   \<and> take 1 (memory_inserts [stored ''a'' 1 ''alice'', stored ''b'' 2 ''bob''] [])
       = [stored ''b'' 2 ''bob'']"
proof -
  have h: "(0::int) \<le> 1" by simp
  have s: "sorted_desc [stored ''a'' 1 ''alice'', stored ''b'' 2 ''bob'']
             = [stored ''b'' 2 ''bob'', stored ''a'' 1 ''alice'']"
    by (simp add: sorted_desc_def timestamp_key_def stored_def)
  from scan_bounded [OF h, where e = env_ddb
      and scan = "ScanOk [stored ''a'' 1 ''alice'', stored ''b'' 2 ''bob'']" and store = "[]"
      and rs = "[stored ''a'' 1 ''alice'', stored ''b'' 2 ''bob'']"]
    scan_bounded [OF h, where e = env_ddb and scan = ScanBotoError
      and store = "[stored ''b'' 2 ''bob'', stored ''a'' 1 ''alice'']"]
    scan_bounded [OF h, where e = env_default and scan = "ScanOk []"
      and store = "[stored ''b'' 2 ''bob'', stored ''a'' 1 ''alice'']"]
  show ?thesis
    by (simp add: s env_ddb_def env_default_def str_truthy_def)
qed

text \<open>
  C9 as stated fails for a negative limit: \<open>store[:-1]\<close> is all but the last record, so
  one record comes back for \<open>limit = -1\<close>. And a read that raises an exception of another
  class than the two caught does not fall back to the in-memory store.
\<close>

theorem scan_negative_limit_counterexample:
  "scan_items env_default (ScanOk []) (- 1) [stored ''b'' 2 ''bob'', stored ''a'' 1 ''alice'']
     = Inr [stored ''b'' 2 ''bob'']
   \<and> \<not> int (length [stored ''b'' 2 ''bob'']) \<le> - 1
   \<and> scan_items env_ddb ScanOtherError 20 [stored ''b'' 2 ''bob'', stored ''a'' 1 ''alice'']
     = Inl Unhandled"
  by (simp add: scan_items_def py_slice_to_def env_default_def env_ddb_def str_truthy_def)

text \<open>
  C10. The guard of DELETE /transactions looks at the table name only, while saving and
  scanning also need the client library. With a table name set, the library missing and no
  override, a save puts the record into the in-memory store, create_transaction leaves the
  store with its record in front (or unchanged when it fails), listing reads the in-memory
  store, and DELETE still answers 403 and leaves those records where they are.
\<close>

theorem memory_records_not_clearable:
  assumes "DDB_TABLE e = Some n" and "n \<noteq> []" and "\<not> boto3 e" and "\<not> allow_clear e"
  shows "save_transaction_record e put r store = (Inr False, memory_insert r store)
     \<and> (case create_transaction e x io t x_user authorization store of
          (Inl err, s) \<Rightarrow> s = store
        | (Inr r', s) \<Rightarrow> s = memory_insert r' store)
     \<and> scan_items e scan limit store = Inr (py_slice_to limit store)
     \<and> list_transactions e x scan limit None store = Inr (py_slice_to limit store)
     \<and> clear_transactions e store
         = (Inl (HTTPException 403
              ''Clearing DynamoDB-backed records is disabled in this environment.''), store)"
proof -
  have 1: "save_transaction_record e p r' s = (Inr False, memory_insert r' s)" for p r' s
    using assms(3) by (simp add: save_transaction_record_def)
  have 2: "scan_items e scan limit store = Inr (py_slice_to limit store)"
    using assms(3) by (simp add: scan_items_def)
  have 3: "clear_transactions e store = (Inl clearing_disabled, store)"
    using assms by (simp add: clear_transactions_def str_truthy_def)
  show ?thesis
    by (simp add: 1 2 3 create_transaction_def list_transactions_def Let_def
        clearing_disabled_def split: sum.splits)
qed

theorem memory_records_not_clearable_witness:
  "DDB_TABLE env_no_boto3 = Some ''transactions'' \<and> \<not> boto3 env_no_boto3
   \<and> \<not> allow_clear env_no_boto3
   \<and> snd (create_transaction env_no_boto3 ext_demo (io_demo RiskError PutOk) (request 500)
        (Some ''alice'') None [])
      = [\<lparr> amount = Fin 500, currency = ''USD'', merchant = ''ACME'', high_risk = False,
           risk_level = Some ''LOW'', item_id = ''id-1'',
           timestamp = Some 1700000000, user = Some ''alice'' \<rparr>]
   \<and> list_transactions env_no_boto3 ext_demo (ScanOk []) 20 None [stored ''a'' 1 ''alice'']
      = Inr [stored ''a'' 1 ''alice'']
   \<and> clear_transactions env_no_boto3 [stored ''a'' 1 ''alice'']
      = (Inl (HTTPException 403
           ''Clearing DynamoDB-backed records is disabled in this environment.''),
         [stored ''a'' 1 ''alice''])"
proof -
  have h1: "DDB_TABLE env_no_boto3 = Some ''transactions''"
    by (simp add: env_no_boto3_def env_ddb_def)
  have h2: "''transactions'' \<noteq> []" by simp
  have h3: "\<not> boto3 env_no_boto3" by (simp add: env_no_boto3_def)
  have h4: "\<not> allow_clear env_no_boto3"
    by (simp add: allow_clear_def env_no_boto3_def env_ddb_def env_default_def lower_def
        ascii_lower_def)
  have c: "create_transaction env_no_boto3 ext_demo (io_demo RiskError PutOk) (request 500)
        (Some ''alice'') None []
      = (Inr \<lparr> amount = Fin 500, currency = ''USD'', merchant = ''ACME'', high_risk = False,
           risk_level = Some ''LOW'', item_id = ''id-1'',
           timestamp = Some 1700000000, user = Some ''alice'' \<rparr>,
         [\<lparr> amount = Fin 500, currency = ''USD'', merchant = ''ACME'', high_risk = False,
           risk_level = Some ''LOW'', item_id = ''id-1'',
           timestamp = Some 1700000000, user = Some ''alice'' \<rparr>])"
    by (simp add: create_eval)
  from memory_records_not_clearable [OF h1 h2 h3 h4, where store = "[stored ''a'' 1 ''alice'']"
      and limit = 20 and x = ext_demo and scan = "ScanOk []"]
  show ?thesis using h1 h3 h4 c by (simp add: py_slice_to_def)
qed

end
